theory Spec2Isabelle
  imports Complex_Main
begin

section \<open>JavaScript values\<close>

text \<open>
  The controller handles request bodies, records and datastore results as plain
  JavaScript values. \<open>JObj\<close> is an object as the ordered list of its own properties
  (a record of the datastore is such an object), \<open>ResponseObj\<close> is the response object
  \<open>res\<close>, which \<open>res.status(..).json(..)\<close> returns. Numbers are only ever tested for
  being zero here, so a real stands for the double.
\<close>

datatype jsval =
    JUndefined
  | JNull
  | JBool bool
  | JNum real
  | JStr string
  | JArr "jsval list"
  | JObj "(string \<times> jsval) list"
  | ResponseObj

datatype js_error =
    TypeError string
  | JsonPatchError string
  | DatastoreError string

text \<open>The test \<open>if(v)\<close>: false for undefined, null, false, 0 and the empty string.\<close>

fun truthy :: "jsval \<Rightarrow> bool" where
  "truthy JUndefined = False"
| "truthy JNull = False"
| "truthy (JBool b) = b"
| "truthy (JNum x) = (x \<noteq> 0)"
| "truthy (JStr s) = (s \<noteq> [])"
| "truthy (JArr xs) = True"
| "truthy (JObj kvs) = True"
| "truthy ResponseObj = True"

text \<open>
  The expression \<open>v.id\<close>: a TypeError on undefined and null, the property's value on an
  object that has it, undefined on everything else (arrays and primitives have no
  property of that name).
\<close>

fun get_id :: "jsval \<Rightarrow> js_error + jsval" where
  "get_id JUndefined = Inl (TypeError ''Cannot read property id of undefined'')"
| "get_id JNull = Inl (TypeError ''Cannot read property id of null'')"
| "get_id (JObj kvs) = Inr (case map_of kvs ''id'' of None \<Rightarrow> JUndefined | Some v \<Rightarrow> v)"
| "get_id v = Inr JUndefined"

text \<open>The statement \<open>delete v.id\<close> (only reached when \<open>v.id\<close> was read before).\<close>

fun delete_id :: "jsval \<Rightarrow> jsval" where
  "delete_id (JObj kvs) = JObj (filter (\<lambda>kv. fst kv \<noteq> ''id'') kvs)"
| "delete_id v = v"

text \<open>The default of an optional status code, \<open>statusCode || d\<close>.\<close>

fun or_default :: "nat option \<Rightarrow> nat \<Rightarrow> nat" where
  "or_default None d = d"
| "or_default (Some c) d = (if c = 0 then d else c)"

section \<open>The world a handler runs in\<close>

text \<open>
  A handler talks to two collaborators: the datastore (\<open>Sessions\<close> and the records it
  returns) and the response object. The trace records, in order, every datastore
  operation with the outcome its promise settled with, every application of a patch
  document, and every response written. A promise is modelled by the outcome it
  settles with: \<open>Inl\<close> a rejection, \<open>Inr\<close> the value it resolves with.
\<close>

datatype ds_op =
    FindAll
  | Find string
  | Create jsval
  | Upsert jsval string
  | Save jsval
  | Destroy jsval

datatype payload = Json jsval | End | Send js_error

datatype event =
    Call ds_op "js_error + jsval"
  | Apply jsval jsval "js_error + jsval"
  | Respond nat payload

record 'db world =
  events :: "event list"
  store :: 'db

definition start :: "'db \<Rightarrow> 'db world" where
  "start d = \<lparr>events = [], store = d\<rparr>"

text \<open>
  The datastore is a parameter: each operation takes the datastore's state and gives
  the outcome of its promise and the new state. \<open>ds_find\<close> and \<open>ds_upsert\<close> receive the
  id of \<open>{where: {id: req.params.id}}\<close>; \<open>ds_save\<close> and \<open>ds_destroy\<close> are the methods of
  a record.
\<close>

record 'db datastore =
  ds_findAll :: "'db \<Rightarrow> (js_error + jsval) \<times> 'db"
  ds_find :: "string \<Rightarrow> 'db \<Rightarrow> (js_error + jsval) \<times> 'db"
  ds_create :: "jsval \<Rightarrow> 'db \<Rightarrow> (js_error + jsval) \<times> 'db"
  ds_upsert :: "jsval \<Rightarrow> string \<Rightarrow> 'db \<Rightarrow> (js_error + jsval) \<times> 'db"
  ds_save :: "jsval \<Rightarrow> 'db \<Rightarrow> (js_error + jsval) \<times> 'db"
  ds_destroy :: "jsval \<Rightarrow> 'db \<Rightarrow> (js_error + jsval) \<times> 'db"

definition ds_call ::
  "ds_op \<Rightarrow> ('db \<Rightarrow> (js_error + jsval) \<times> 'db) \<Rightarrow> 'db world
     \<Rightarrow> (js_error + jsval) \<times> 'db world" where
  "ds_call operation f w =
     (case f (store w) of
        (r, d) \<Rightarrow> (r, \<lparr>events = events w @ [Call operation r], store = d\<rparr>))"

definition Sessions_findAll ::
  "'db datastore \<Rightarrow> 'db world \<Rightarrow> (js_error + jsval) \<times> 'db world" where
  "Sessions_findAll ds = ds_call FindAll (ds_findAll ds)"

definition Sessions_find ::
  "'db datastore \<Rightarrow> string \<Rightarrow> 'db world \<Rightarrow> (js_error + jsval) \<times> 'db world" where
  "Sessions_find ds pid = ds_call (Find pid) (ds_find ds pid)"

definition Sessions_create ::
  "'db datastore \<Rightarrow> jsval \<Rightarrow> 'db world \<Rightarrow> (js_error + jsval) \<times> 'db world" where
  "Sessions_create ds body = ds_call (Create body) (ds_create ds body)"

definition Sessions_upsert ::
  "'db datastore \<Rightarrow> jsval \<Rightarrow> string \<Rightarrow> 'db world \<Rightarrow> (js_error + jsval) \<times> 'db world" where
  "Sessions_upsert ds body pid = ds_call (Upsert body pid) (ds_upsert ds body pid)"

text \<open>
  \<open>entity.save()\<close> and \<open>entity.destroy()\<close>: only a record has these methods; on null, as
  on any other value, the call is a TypeError and the datastore is not reached.
\<close>

definition entity_save ::
  "'db datastore \<Rightarrow> jsval \<Rightarrow> 'db world \<Rightarrow> (js_error + jsval) \<times> 'db world" where
  "entity_save ds entity w =
     (case entity of
        JObj kvs \<Rightarrow> ds_call (Save entity) (ds_save ds entity) w
      | _ \<Rightarrow> (Inl (TypeError ''Cannot read property save''), w))"

definition entity_destroy ::
  "'db datastore \<Rightarrow> jsval \<Rightarrow> 'db world \<Rightarrow> (js_error + jsval) \<times> 'db world" where
  "entity_destroy ds entity w =
     (case entity of
        JObj kvs \<Rightarrow> ds_call (Destroy entity) (ds_destroy ds entity) w
      | _ \<Rightarrow> (Inl (TypeError ''Cannot read property destroy''), w))"

text \<open>
  \<open>jsonpatch.apply(entity, patches, true)\<close> is a parameter too: it throws (\<open>Inl\<close>) or
  returns with the entity mutated in place (\<open>Inr\<close> the entity afterwards). In place an
  object stays an object and an array an array, with other contents; a variable
  holding null, or any other primitive, still holds it.
\<close>

definition mutated :: "jsval \<Rightarrow> jsval \<Rightarrow> jsval" where
  "mutated entity after =
     (case entity of
        JObj kvs \<Rightarrow> (case after of JObj kvs' \<Rightarrow> after | _ \<Rightarrow> entity)
      | JArr xs \<Rightarrow> (case after of JArr xs' \<Rightarrow> after | _ \<Rightarrow> entity)
      | _ \<Rightarrow> entity)"

definition jsonpatch_apply ::
  "(jsval \<Rightarrow> jsval \<Rightarrow> js_error + jsval) \<Rightarrow> jsval \<Rightarrow> jsval \<Rightarrow> 'db world
     \<Rightarrow> (js_error + jsval) \<times> 'db world" where
  "jsonpatch_apply jp entity patches w =
     (let r = (case jp entity patches of
                 Inl err \<Rightarrow> Inl err
               | Inr after \<Rightarrow> Inr (mutated entity after))
      in (r, w\<lparr>events := events w @ [Apply entity patches r]\<rparr>))"

text \<open>
  \<open>res.status(statusCode)\<close> followed by \<open>.json(entity)\<close>, \<open>.end()\<close> or \<open>.send(err)\<close>. The
  trace keeps every such write the handler makes, in order; what the framework does
  with a write that comes after the response has ended is not part of the model.
\<close>

definition respond :: "nat \<Rightarrow> payload \<Rightarrow> 'db world \<Rightarrow> 'db world" where
  "respond statusCode p w = w\<lparr>events := events w @ [Respond statusCode p]\<rparr>"

text \<open>
  \<open>p.then(f)\<close> runs \<open>f\<close> on the value of a resolved promise and passes a rejection on;
  \<open>p.catch(h)\<close> runs \<open>h\<close> on the error of a rejected promise and passes a value on.
  A callback that throws, or returns a rejected promise, gives \<open>Inl\<close>.
\<close>

definition then_p ::
  "(js_error + jsval) \<times> 'db world \<Rightarrow> (jsval \<Rightarrow> 'db world \<Rightarrow> (js_error + jsval) \<times> 'db world)
     \<Rightarrow> (js_error + jsval) \<times> 'db world" where
  "then_p p f = (case p of (Inl err, w) \<Rightarrow> (Inl err, w) | (Inr v, w) \<Rightarrow> f v w)"

definition catch_p ::
  "(js_error + jsval) \<times> 'db world \<Rightarrow> (js_error \<Rightarrow> 'db world \<Rightarrow> (js_error + jsval) \<times> 'db world)
     \<Rightarrow> (js_error + jsval) \<times> 'db world" where
  "catch_p p h = (case p of (Inl err, w) \<Rightarrow> h err w | (Inr v, w) \<Rightarrow> (Inr v, w))"

section \<open>The combinators of the controller\<close>

definition respondWithResult ::
  "nat option \<Rightarrow> jsval \<Rightarrow> 'db world \<Rightarrow> (js_error + jsval) \<times> 'db world" where
  "respondWithResult statusCode entity w =
     (if truthy entity
      then (Inr ResponseObj, respond (or_default statusCode 200) (Json entity) w)
      else (Inr JNull, w))"

definition patchUpdates ::
  "'db datastore \<Rightarrow> (jsval \<Rightarrow> jsval \<Rightarrow> js_error + jsval) \<Rightarrow> jsval \<Rightarrow> jsval \<Rightarrow> 'db world
     \<Rightarrow> (js_error + jsval) \<times> 'db world" where
  "patchUpdates ds jp patches entity w =
     (case jsonpatch_apply jp entity patches w of
        (Inl err, w') \<Rightarrow> (Inl err, w')
      | (Inr entity', w') \<Rightarrow> entity_save ds entity' w')"

definition removeEntity ::
  "'db datastore \<Rightarrow> jsval \<Rightarrow> 'db world \<Rightarrow> (js_error + jsval) \<times> 'db world" where
  "removeEntity ds entity w =
     (if truthy entity
      then then_p (entity_destroy ds entity w) (\<lambda>_ w'. (Inr JUndefined, respond 204 End w'))
      else (Inr JUndefined, w))"

definition handleEntityNotFound ::
  "jsval \<Rightarrow> 'db world \<Rightarrow> (js_error + jsval) \<times> 'db world" where
  "handleEntityNotFound entity w =
     (if \<not> truthy entity then (Inr JNull, respond 404 End w) else (Inr entity, w))"

definition handleError ::
  "nat option \<Rightarrow> js_error \<Rightarrow> 'db world \<Rightarrow> (js_error + jsval) \<times> 'db world" where
  "handleError statusCode err w =
     (Inr JUndefined, respond (or_default statusCode 500) (Send err) w)"

section \<open>The handlers\<close>

text \<open>
  A handler either throws before it has a promise to return (\<open>Threw\<close>: reading
  \<open>req.body.id\<close> of a missing body) or returns a promise, given by its outcome.
\<close>

datatype outcome = Threw js_error | Promise "js_error + jsval"

definition returned :: "(js_error + jsval) \<times> 'db world \<Rightarrow> outcome \<times> 'db world" where
  "returned p = (case p of (r, w) \<Rightarrow> (Promise r, w))"

definition index :: "'db datastore \<Rightarrow> 'db world \<Rightarrow> outcome \<times> 'db world" where
  "index ds w =
     returned (catch_p (then_p (Sessions_findAll ds w)
                               (respondWithResult None))
                       (handleError None))"

definition "show" :: "'db datastore \<Rightarrow> string \<Rightarrow> 'db world \<Rightarrow> outcome \<times> 'db world" where
  "show ds pid w =
     returned (catch_p (then_p (then_p (Sessions_find ds pid w)
                                       handleEntityNotFound)
                               (respondWithResult None))
                       (handleError None))"

definition create :: "'db datastore \<Rightarrow> jsval \<Rightarrow> 'db world \<Rightarrow> outcome \<times> 'db world" where
  "create ds body w =
     returned (catch_p (then_p (Sessions_create ds body w)
                               (respondWithResult (Some 201)))
                       (handleError None))"

definition upsert ::
  "'db datastore \<Rightarrow> string \<Rightarrow> jsval \<Rightarrow> 'db world \<Rightarrow> outcome \<times> 'db world" where
  "upsert ds pid body w =
     (case get_id body of
        Inl err \<Rightarrow> (Threw err, w)
      | Inr v \<Rightarrow>
          (let body' = (if truthy v then delete_id body else body)
           in returned (catch_p (then_p (Sessions_upsert ds body' pid w)
                                        (respondWithResult None))
                                (handleError None))))"

definition patch ::
  "'db datastore \<Rightarrow> (jsval \<Rightarrow> jsval \<Rightarrow> js_error + jsval) \<Rightarrow> string \<Rightarrow> jsval \<Rightarrow> 'db world
     \<Rightarrow> outcome \<times> 'db world" where
  "patch ds jp pid body w =
     (case get_id body of
        Inl err \<Rightarrow> (Threw err, w)
      | Inr v \<Rightarrow>
          (let body' = (if truthy v then delete_id body else body)
           in returned (catch_p (then_p (then_p (then_p (Sessions_find ds pid w)
                                                        handleEntityNotFound)
                                                (patchUpdates ds jp body'))
                                        (respondWithResult None))
                                (handleError None))))"

definition destroy :: "'db datastore \<Rightarrow> string \<Rightarrow> 'db world \<Rightarrow> outcome \<times> 'db world" where
  "destroy ds pid w =
     returned (catch_p (then_p (then_p (Sessions_find ds pid w)
                                       handleEntityNotFound)
                               (removeEntity ds))
                       (handleError None))"

text \<open>
  The routes listed at the head of the file: which handler serves which request. The
  result is the world after the handler has run.
\<close>

datatype request =
    GET_index
  | POST_create jsval
  | GET_show string
  | PUT_upsert string jsval
  | PATCH_patch string jsval
  | DELETE_destroy string

fun route ::
  "'db datastore \<Rightarrow> (jsval \<Rightarrow> jsval \<Rightarrow> js_error + jsval) \<Rightarrow> request \<Rightarrow> 'db world \<Rightarrow> 'db world" where
  "route ds jp GET_index w = snd (index ds w)"
| "route ds jp (POST_create body) w = snd (create ds body w)"
| "route ds jp (GET_show pid) w = snd (show ds pid w)"
| "route ds jp (PUT_upsert pid body) w = snd (upsert ds pid body w)"
| "route ds jp (PATCH_patch pid body) w = snd (patch ds jp pid body w)"
| "route ds jp (DELETE_destroy pid) w = snd (destroy ds pid w)"

section \<open>Reading a trace\<close>

fun ds_ops :: "event list \<Rightarrow> ds_op list" where
  "ds_ops [] = []"
| "ds_ops (Call operation r # es) = operation # ds_ops es"
| "ds_ops (e # es) = ds_ops es"

fun responses :: "event list \<Rightarrow> (nat \<times> payload) list" where
  "responses [] = []"
| "responses (Respond statusCode p # es) = (statusCode, p) # responses es"
| "responses (e # es) = responses es"

fun patch_documents :: "event list \<Rightarrow> jsval list" where
  "patch_documents [] = []"
| "patch_documents (Apply entity patches r # es) = patches # patch_documents es"
| "patch_documents (e # es) = patch_documents es"

section \<open>Stand-ins for the collaborators\<close>

text \<open>
  To run the handlers on concrete requests the two parameters need values. The
  scripted datastore answers each operation with the next outcome of a script, whatever
  the operation; an exhausted script rejects.
\<close>

fun next_outcome ::
  "(js_error + jsval) list \<Rightarrow> (js_error + jsval) \<times> (js_error + jsval) list" where
  "next_outcome [] = (Inl (DatastoreError ''script exhausted''), [])"
| "next_outcome (r # rs) = (r, rs)"

definition scripted :: "(js_error + jsval) list datastore" where
  "scripted =
     \<lparr>ds_findAll = next_outcome,
      ds_find = (\<lambda>pid. next_outcome),
      ds_create = (\<lambda>body. next_outcome),
      ds_upsert = (\<lambda>body pid. next_outcome),
      ds_save = (\<lambda>entity. next_outcome),
      ds_destroy = (\<lambda>entity. next_outcome)\<rparr>"

text \<open>
  A patch applier for flat records. It runs over the patch as the library's loop does,
  from index 0 to \<open>patches.length\<close>: an array gives its elements, a string its
  characters, and a value without a \<open>length\<close> (a plain object, a number, a boolean) gives
  nothing, so that such a patch is applied without any effect and without an error.
  Each element is applied in order until one is refused: the operations \<open>add\<close>,
  \<open>replace\<close> and \<open>remove\<close> on a member named by the path \<open>/key\<close>, checked as validation
  does (an operation must be an object with a known \<open>op\<close>, \<open>add\<close> and \<open>replace\<close> need a
  \<open>value\<close>, \<open>replace\<close> and \<open>remove\<close> need the member to exist). On null any operation
  is a TypeError, as reading a property of null is. Longer paths, the operations
  \<open>move\<close>, \<open>copy\<close> and \<open>test\<close>, and an object patch with a \<open>length\<close> of its own are not
  covered: the stand-in refuses them under a name of its own, and no statement below
  runs it on one.
\<close>

fun set_member :: "string \<Rightarrow> jsval \<Rightarrow> (string \<times> jsval) list \<Rightarrow> (string \<times> jsval) list" where
  "set_member k v [] = [(k, v)]"
| "set_member k v ((k', v') # kvs) =
     (if k' = k then (k, v) # kvs else (k', v') # set_member k v kvs)"

definition simple_path :: "char \<Rightarrow> string \<Rightarrow> bool" where
  "simple_path c key = (c = CHR ''/'' \<and> CHR ''/'' \<notin> set key \<and> CHR ''~'' \<notin> set key)"

fun flat_operation ::
  "(string \<times> jsval) list \<Rightarrow> jsval \<Rightarrow> js_error + (string \<times> jsval) list" where
  "flat_operation kvs (JObj operation) =
     (case (map_of operation ''op'', map_of operation ''path'') of
        (Some (JStr name), Some (JStr (c # key))) \<Rightarrow>
          (if \<not> simple_path c key
           then Inl (JsonPatchError ''path outside the stand-in'')
           else if name = ''add'' then
             (case map_of operation ''value'' of
                None \<Rightarrow> Inl (JsonPatchError ''OPERATION_VALUE_REQUIRED'')
              | Some v \<Rightarrow> Inr (set_member key v kvs))
           else if name = ''replace'' then
             (case map_of operation ''value'' of
                None \<Rightarrow> Inl (JsonPatchError ''OPERATION_VALUE_REQUIRED'')
              | Some v \<Rightarrow>
                  (case map_of kvs key of
                     None \<Rightarrow> Inl (JsonPatchError ''OPERATION_PATH_UNRESOLVABLE'')
                   | Some old \<Rightarrow> Inr (set_member key v kvs)))
           else if name = ''remove'' then
             (case map_of kvs key of
                None \<Rightarrow> Inl (JsonPatchError ''OPERATION_PATH_UNRESOLVABLE'')
              | Some old \<Rightarrow> Inr (filter (\<lambda>kv. fst kv \<noteq> key) kvs))
           else Inl (JsonPatchError ''OPERATION_OP_INVALID''))
      | other \<Rightarrow> Inl (JsonPatchError ''operation outside the stand-in''))"
| "flat_operation kvs JNull = Inl (JsonPatchError ''operation outside the stand-in'')"
| "flat_operation kvs JUndefined = Inl (JsonPatchError ''operation outside the stand-in'')"
| "flat_operation kvs ResponseObj = Inl (JsonPatchError ''operation outside the stand-in'')"
| "flat_operation kvs v = Inl (JsonPatchError ''OPERATION_NOT_AN_OBJECT'')"

fun flat_operations :: "jsval \<Rightarrow> jsval list \<Rightarrow> js_error + jsval" where
  "flat_operations entity [] = Inr entity"
| "flat_operations (JObj kvs) (operation # rest) =
     (case flat_operation kvs operation of
        Inl err \<Rightarrow> Inl err
      | Inr kvs' \<Rightarrow> flat_operations (JObj kvs') rest)"
| "flat_operations JNull (operation # rest) = Inl (TypeError ''Cannot read property of null'')"
| "flat_operations JUndefined (operation # rest) =
     Inl (TypeError ''Cannot read property of undefined'')"
| "flat_operations entity (operation # rest) =
     Inl (JsonPatchError ''document outside the stand-in'')"

fun jsonpatch_flat :: "jsval \<Rightarrow> jsval \<Rightarrow> js_error + jsval" where
  "jsonpatch_flat entity (JArr operations) = flat_operations entity operations"
| "jsonpatch_flat entity (JStr s) = flat_operations entity (map (\<lambda>c. JStr [c]) s)"
| "jsonpatch_flat entity (JObj kvs) =
     (case map_of kvs ''length'' of
        None \<Rightarrow> Inr entity
      | Some n \<Rightarrow> Inl (JsonPatchError ''patch outside the stand-in''))"
| "jsonpatch_flat entity JUndefined = Inl (TypeError ''Cannot read property length of undefined'')"
| "jsonpatch_flat entity JNull = Inl (TypeError ''Cannot read property length of null'')"
| "jsonpatch_flat entity patches = Inr entity"

text \<open>
  The record and the patch of the spec's scenario: record 1 named s1, and the patch
  that renames it to s2.
\<close>

definition sample_record :: jsval where
  "sample_record = JObj [(''id'', JNum 1), (''name'', JStr ''s1'')]"

definition sample_patch :: jsval where
  "sample_patch =
     JArr [JObj [(''op'', JStr ''replace''), (''path'', JStr ''/name''),
                 (''value'', JStr ''s2'')]]"

definition sample_body :: jsval where
  "sample_body = JObj [(''name'', JStr ''s1'')]"

definition sample_patched :: jsval where
  "sample_patched = JObj [(''id'', JNum 1), (''name'', JStr ''s2'')]"

section \<open>Unfolding and trace lemmas\<close>

lemmas chain_defs = returned_def catch_p_def then_p_def ds_call_def start_def
  respondWithResult_def handleError_def handleEntityNotFound_def respond_def
  Sessions_findAll_def Sessions_find_def Sessions_create_def Sessions_upsert_def
  removeEntity_def patchUpdates_def jsonpatch_apply_def Let_def

lemma ds_ops_append: "ds_ops (xs @ ys) = ds_ops xs @ ds_ops ys"
  by (induction xs rule: ds_ops.induct) simp_all

lemma patch_documents_append:
  "patch_documents (xs @ ys) = patch_documents xs @ patch_documents ys"
  by (induction xs rule: patch_documents.induct) simp_all

lemma map_of_filter_other: "map_of (filter (\<lambda>kv. fst kv \<noteq> k) kvs) k = None"
  by (induction kvs) auto

lemma get_id_delete_id: "get_id body = Inr v \<Longrightarrow> get_id (delete_id body) = Inr JUndefined"
  by (cases body) (simp_all add: map_of_filter_other)

lemma stripped_id_not_truthy:
  "get_id body = Inr i \<Longrightarrow>
   \<exists>v. get_id (if truthy i then delete_id body else body) = Inr v \<and> \<not> truthy v"
  by (simp add: get_id_delete_id)

lemma upsert_ds_ops:
  "get_id body = Inr i \<Longrightarrow>
   ds_ops (events (snd (upsert ds pid body (start d)))) =
     [Upsert (if truthy i then delete_id body else body) pid]"
  by (simp add: upsert_def chain_defs ds_ops_append split: prod.splits sum.splits)

lemma upsert_threw_ds_ops:
  "get_id body = Inl e \<Longrightarrow> ds_ops (events (snd (upsert ds pid body (start d)))) = []"
  by (simp add: upsert_def start_def)

lemma patch_threw_documents:
  "get_id body = Inl e \<Longrightarrow>
   patch_documents (events (snd (patch ds jp pid body (start d)))) = []"
  by (simp add: patch_def start_def)

text \<open>
  Whatever the datastore and the patch applier do, the only document patch ever hands
  to the applier is the request body after the \<open>id\<close> statement.
\<close>

lemma patch_documents_patch:
  assumes i: "get_id body = Inr i"
    and m: "doc \<in> set (patch_documents (events (snd (patch ds jp pid body (start d)))))"
  shows "doc = (if truthy i then delete_id body else body)"
proof -
  define body' where "body' = (if truthy i then delete_id body else body)"
  have body': "(if truthy i then delete_id body else body) = body'" by (simp add: body'_def)
  obtain r d' where f: "ds_find ds pid d = (r, d')" by (cases "ds_find ds pid d")
  have "doc = body'"
  proof (cases r)
    case (Inl e)
    with m i f show ?thesis by (auto simp: patch_def chain_defs)
  next
    case r: (Inr entity)
    define passed where "passed = (if truthy entity then entity else JNull)"
    show ?thesis
    proof (cases "jp passed body'")
      case (Inl e)
      with m i f r body' show ?thesis
        by (auto simp: patch_def chain_defs passed_def split: if_splits)
    next
      case after: (Inr after)
      define e' where "e' = mutated passed after"
      have e': "mutated passed after = e'" by (simp add: e'_def)
      obtain s d'' where s: "ds_save ds e' d' = (s, d'')" by (cases "ds_save ds e' d'")
      show ?thesis
      proof (cases "truthy entity")
        case False
        then have "passed = JNull" and "e' = JNull"
          by (simp_all add: passed_def e'_def mutated_def)
        with m i f r body' after False show ?thesis
          by (auto simp: patch_def chain_defs entity_save_def mutated_def)
      next
        case True
        then have "passed = entity" by (simp add: passed_def)
        with m i f r body' after e' s True show ?thesis
          by (cases e'; cases s)
             (auto simp: patch_def chain_defs entity_save_def split: if_splits)
      qed
    qed
  qed
  then show ?thesis by (simp add: body'_def)
qed

text \<open>
  When no record is found, patch writes the 404 and goes on: the null it passes down the
  chain reaches \<open>patchUpdates\<close>, which has no guard for it (\<open>removeEntity\<close> and
  \<open>respondWithResult\<close> have one). Either the applier throws on null or \<open>null.save()\<close>
  does; the rejection reaches \<open>handleError\<close>, which writes a second response. The
  datastore is not called again.
\<close>

lemma patch_not_found_then_error:
  "ds_find ds pid d = (Inr JNull, d') \<Longrightarrow> get_id body = Inr i \<Longrightarrow>
   ds_ops (events (snd (patch ds jp pid body (start d)))) = [Find pid] \<and>
   (\<exists>err. responses (events (snd (patch ds jp pid body (start d)))) =
      [(404, End), (500, Send err)])"
  by (auto simp add: patch_def chain_defs entity_save_def mutated_def split: sum.splits)

section \<open>The claims\<close>

text \<open>
  What the \<open>id\<close> statement of upsert and patch achieves: it deletes the request body's own
  \<open>id\<close> property when its value is truthy. So the data handed to the datastore's
  upsert, and the document handed to the patch applier, is the body itself or the body
  without \<open>id\<close>, and carries no truthy \<open>id\<close> property of its own.
\<close>

lemma truthy_id_stripped:
  "(Upsert doc p \<in> set (ds_ops (events (snd (upsert ds pid body (start d))))) \<longrightarrow>
      (doc = body \<or> doc = delete_id body) \<and> (\<exists>v. get_id doc = Inr v \<and> \<not> truthy v)) \<and>
   (doc \<in> set (patch_documents (events (snd (patch ds jp pid body (start d))))) \<longrightarrow>
      (doc = body \<or> doc = delete_id body) \<and> (\<exists>v. get_id doc = Inr v \<and> \<not> truthy v))"
proof (cases "get_id body")
  case (Inl e)
  then show ?thesis by (simp add: upsert_threw_ds_ops patch_threw_documents)
next
  case (Inr i)
  have u: "Upsert doc p \<in> set (ds_ops (events (snd (upsert ds pid body (start d))))) \<Longrightarrow>
           doc = (if truthy i then delete_id body else body)"
    using Inr by (simp add: upsert_ds_ops)
  have q: "doc \<in> set (patch_documents (events (snd (patch ds jp pid body (start d))))) \<Longrightarrow>
           doc = (if truthy i then delete_id body else body)"
    using Inr by (rule patch_documents_patch)
  from stripped_id_not_truthy [OF Inr] u q show ?thesis
    by (cases "truthy i") auto
qed

text \<open>
  A patch document is an array, and an array has no \<open>id\<close> property: the statement does
  nothing to it. Whatever the datastore and the applier are, the applier receives the
  array as the client sent it, operations on \<open>/id\<close> included.
\<close>

lemma patch_array_unfiltered:
  "doc \<in> set (patch_documents (events (snd (patch ds jp pid (JArr ops) (start d))))) \<Longrightarrow>
   doc = JArr ops"
  using patch_documents_patch [of "JArr ops" JUndefined doc ds jp pid d] by simp

text \<open>
  C1 fails on the code. PATCH /api/session/1 with \<open>[{op: replace, path: /id, value: 2}]\<close>,
  record 1 being \<open>{id: 1, name: "s1"}\<close>: the record is fetched, the operation is applied
  to it, and save is called on a record whose \<open>id\<close> is 2, which is what the answer
  carries.
\<close>

theorem patch_document_rewrites_id:
  "events (snd (patch scripted jsonpatch_flat ''1''
      (JArr [JObj [(''op'', JStr ''replace''), (''path'', JStr ''/id''), (''value'', JNum 2)]])
      (start [Inr (JObj [(''id'', JNum 1), (''name'', JStr ''s1'')]),
              Inr (JObj [(''id'', JNum 2), (''name'', JStr ''s1'')])]))) =
   [Call (Find ''1'') (Inr (JObj [(''id'', JNum 1), (''name'', JStr ''s1'')])),
    Apply (JObj [(''id'', JNum 1), (''name'', JStr ''s1'')])
      (JArr [JObj [(''op'', JStr ''replace''), (''path'', JStr ''/id''), (''value'', JNum 2)]])
      (Inr (JObj [(''id'', JNum 2), (''name'', JStr ''s1'')])),
    Call (Save (JObj [(''id'', JNum 2), (''name'', JStr ''s1'')]))
      (Inr (JObj [(''id'', JNum 2), (''name'', JStr ''s1'')])),
    Respond 200 (Json (JObj [(''id'', JNum 2), (''name'', JStr ''s1'')]))]"
  by (simp add: patch_def chain_defs scripted_def entity_save_def mutated_def
      simple_path_def)

text \<open>
  C2 fails on the code. PATCH /api/session/42 with a well-formed patch, when no record
  42 exists: the 404 is written, save is never reached, but the applier then runs on
  null, throws, and \<open>handleError\<close> writes a 500 after the 404.
\<close>

theorem patch_not_found_responds_twice:
  "events (snd (patch scripted jsonpatch_flat ''42''
      (JArr [JObj [(''op'', JStr ''replace''), (''path'', JStr ''/name''),
                   (''value'', JStr ''s2'')]])
      (start [Inr JNull]))) =
   [Call (Find ''42'') (Inr JNull),
    Respond 404 End,
    Apply JNull
      (JArr [JObj [(''op'', JStr ''replace''), (''path'', JStr ''/name''),
                   (''value'', JStr ''s2'')]])
      (Inl (TypeError ''Cannot read property of null'')),
    Respond 500
      (Send (TypeError ''Cannot read property of null''))]"
  by (simp add: patch_def chain_defs scripted_def)

text \<open>
  C3, as the code has it: when the record exists and the patch applier throws on the
  document (the request body after the \<open>id\<close> statement), patch fetches the record,
  applies, and answers 500 with the error thrown. Save is not called: the datastore is
  left as the fetch left it.
\<close>

theorem patch_invalid_document:
  "ds_find ds pid d = (Inr (JObj kvs), d') \<Longrightarrow> get_id body = Inr i \<Longrightarrow>
   doc = (if truthy i then delete_id body else body) \<Longrightarrow>
   jp (JObj kvs) doc = Inl err \<Longrightarrow>
   events (snd (patch ds jp pid body (start d))) =
     [Call (Find pid) (Inr (JObj kvs)), Apply (JObj kvs) doc (Inl err), Respond 500 (Send err)]
   \<and> store (snd (patch ds jp pid body (start d))) = d'"
  by (simp add: patch_def chain_defs)

text \<open>
  C3, witness: record 1 is \<open>{id: 1, name: "s1"}\<close> and the document replaces a member
  the record does not have.
\<close>

theorem patch_invalid_document_witness:
  "ds_find scripted ''1'' [Inr (JObj [(''id'', JNum 1), (''name'', JStr ''s1'')])] =
     (Inr (JObj [(''id'', JNum 1), (''name'', JStr ''s1'')]), []) \<and>
   get_id (JArr [JObj [(''op'', JStr ''replace''), (''path'', JStr ''/title''),
                       (''value'', JStr ''t'')]]) = Inr JUndefined \<and>
   jsonpatch_flat (JObj [(''id'', JNum 1), (''name'', JStr ''s1'')])
     (JArr [JObj [(''op'', JStr ''replace''), (''path'', JStr ''/title''),
                  (''value'', JStr ''t'')]]) =
     Inl (JsonPatchError ''OPERATION_PATH_UNRESOLVABLE'') \<and>
   events (snd (patch scripted jsonpatch_flat ''1''
     (JArr [JObj [(''op'', JStr ''replace''), (''path'', JStr ''/title''),
                  (''value'', JStr ''t'')]])
     (start [Inr (JObj [(''id'', JNum 1), (''name'', JStr ''s1'')])]))) =
     [Call (Find ''1'') (Inr (JObj [(''id'', JNum 1), (''name'', JStr ''s1'')])),
      Apply (JObj [(''id'', JNum 1), (''name'', JStr ''s1'')])
        (JArr [JObj [(''op'', JStr ''replace''), (''path'', JStr ''/title''),
                     (''value'', JStr ''t'')]])
        (Inl (JsonPatchError ''OPERATION_PATH_UNRESOLVABLE'')),
      Respond 500 (Send (JsonPatchError ''OPERATION_PATH_UNRESOLVABLE''))] \<and>
   store (snd (patch scripted jsonpatch_flat ''1''
     (JArr [JObj [(''op'', JStr ''replace''), (''path'', JStr ''/title''),
                  (''value'', JStr ''t'')]])
     (start [Inr (JObj [(''id'', JNum 1), (''name'', JStr ''s1'')])]))) = []"
proof -
  have f: "ds_find scripted ''1'' [Inr (JObj [(''id'', JNum 1), (''name'', JStr ''s1'')])] =
     (Inr (JObj [(''id'', JNum 1), (''name'', JStr ''s1'')]), [])"
    by (simp add: scripted_def)
  have g: "get_id (JArr [JObj [(''op'', JStr ''replace''), (''path'', JStr ''/title''),
                       (''value'', JStr ''t'')]]) = Inr JUndefined"
    by simp
  have j: "jsonpatch_flat (JObj [(''id'', JNum 1), (''name'', JStr ''s1'')])
     (JArr [JObj [(''op'', JStr ''replace''), (''path'', JStr ''/title''),
                  (''value'', JStr ''t'')]]) =
     Inl (JsonPatchError ''OPERATION_PATH_UNRESOLVABLE'')"
    by (simp add: simple_path_def)
  have k: "JArr [JObj [(''op'', JStr ''replace''), (''path'', JStr ''/title''),
                       (''value'', JStr ''t'')]] =
     (if truthy JUndefined
      then delete_id (JArr [JObj [(''op'', JStr ''replace''), (''path'', JStr ''/title''),
                                  (''value'', JStr ''t'')]])
      else JArr [JObj [(''op'', JStr ''replace''), (''path'', JStr ''/title''),
                       (''value'', JStr ''t'')]])"
    by simp
  from patch_invalid_document [where jp = jsonpatch_flat, OF f g k j] f g j show ?thesis by simp
qed

text \<open>
  C3 as stated fails: not every document that is no JSON Patch makes the applier throw.
  PATCH /api/session/1 with the object \<open>{name: "s2"}\<close> in place of an array of
  operations: the applier finds no operations in it and returns, save is called on the
  unchanged record, and the answer is 200.
\<close>

theorem patch_object_document_saved:
  "events (snd (patch scripted jsonpatch_flat ''1''
      (JObj [(''name'', JStr ''s2'')])
      (start [Inr (JObj [(''id'', JNum 1), (''name'', JStr ''s1'')]),
              Inr (JObj [(''id'', JNum 1), (''name'', JStr ''s1'')])]))) =
   [Call (Find ''1'') (Inr (JObj [(''id'', JNum 1), (''name'', JStr ''s1'')])),
    Apply (JObj [(''id'', JNum 1), (''name'', JStr ''s1'')])
      (JObj [(''name'', JStr ''s2'')])
      (Inr (JObj [(''id'', JNum 1), (''name'', JStr ''s1'')])),
    Call (Save (JObj [(''id'', JNum 1), (''name'', JStr ''s1'')]))
      (Inr (JObj [(''id'', JNum 1), (''name'', JStr ''s1'')])),
    Respond 200 (Json (JObj [(''id'', JNum 1), (''name'', JStr ''s1'')]))]"
  by (simp add: patch_def chain_defs scripted_def entity_save_def mutated_def)






text \<open>
  C6: show answers 200 with the record when the fetch by id resolves with a record, and
  404 with no body when it resolves with null.
\<close>

theorem show_responds:
  "(ds_find ds pid d = (Inr (JObj kvs), d') \<longrightarrow>
      events (snd (show ds pid (start d))) =
        [Call (Find pid) (Inr (JObj kvs)), Respond 200 (Json (JObj kvs))]) \<and>
   (ds_find ds pid d = (Inr JNull, d') \<longrightarrow>
      events (snd (show ds pid (start d))) =
        [Call (Find pid) (Inr JNull), Respond 404 End])"
  by (simp add: show_def chain_defs)

text \<open>C6, witness: GET /api/session/1 with and without a record 1.\<close>

theorem show_responds_witness:
  "events (snd (show scripted ''1''
       (start [Inr (JObj [(''id'', JNum 1), (''name'', JStr ''s1'')])]))) =
     [Call (Find ''1'') (Inr (JObj [(''id'', JNum 1), (''name'', JStr ''s1'')])),
      Respond 200 (Json (JObj [(''id'', JNum 1), (''name'', JStr ''s1'')]))] \<and>
   events (snd (show scripted ''1'' (start [Inr JNull]))) =
     [Call (Find ''1'') (Inr JNull), Respond 404 End]"
  using
    show_responds [of scripted "''1''" "[Inr (JObj [(''id'', JNum 1), (''name'', JStr ''s1'')])]"
      "[(''id'', JNum 1), (''name'', JStr ''s1'')]" "[]"]
    show_responds [of scripted "''1''" "[Inr JNull]" _ "[]"]
  by (simp add: scripted_def)

text \<open>
  When the datastore's upsert resolves with a truthy value, upsert answers 200 with
  that value as the body.
\<close>

lemma upsert_responds_truthy:
  "get_id body = Inr i \<Longrightarrow> body' = (if truthy i then delete_id body else body) \<Longrightarrow>
   ds_upsert ds body' pid d = (Inr v, d') \<Longrightarrow> truthy v \<Longrightarrow>
   events (snd (upsert ds pid body (start d))) =
     [Call (Upsert body' pid) (Inr v), Respond 200 (Json v)]"
  by (simp add: upsert_def chain_defs)

text \<open>
  C7 fails on the code. \<open>respondWithResult\<close> writes nothing for a falsy value: its guard
  is there for the null that follows a 404, but upsert passes it the datastore's own
  result. PUT /api/session/1 with \<open>{name: "s2"}\<close>, when the datastore's upsert resolves
  with false (the row was updated, not created) or with 0 affected rows: the upsert is
  done and the request gets no response at all.
\<close>

theorem upsert_falsy_result_no_response:
  "events (snd (upsert scripted ''1'' (JObj [(''name'', JStr ''s2'')])
      (start [Inr (JBool False)]))) =
   [Call (Upsert (JObj [(''name'', JStr ''s2'')]) ''1'') (Inr (JBool False))] \<and>
   responses (events (snd (upsert scripted ''1'' (JObj [(''name'', JStr ''s2'')])
      (start [Inr (JNum 0)])))) = []"
  by (simp add: upsert_def chain_defs scripted_def)

text \<open>
  C8: index answers 200 with the list findAll resolves with, as it is (an empty list
  too: an array is truthy), and 500 with the error findAll is rejected with.
\<close>

theorem index_responds:
  "(ds_findAll ds d = (Inr (JArr xs), d') \<longrightarrow>
      events (snd (index ds (start d))) =
        [Call FindAll (Inr (JArr xs)), Respond 200 (Json (JArr xs))]) \<and>
   (ds_findAll ds d = (Inl err, d') \<longrightarrow>
      events (snd (index ds (start d))) =
        [Call FindAll (Inl err), Respond 500 (Send err)])"
  by (simp add: index_def chain_defs)

text \<open>C8, witness: GET /api/session on an empty table, and with the datastore down.\<close>

theorem index_responds_witness:
  "events (snd (index scripted (start [Inr (JArr [])]))) =
     [Call FindAll (Inr (JArr [])), Respond 200 (Json (JArr []))] \<and>
   events (snd (index scripted (start [Inl (DatastoreError ''down'')]))) =
     [Call FindAll (Inl (DatastoreError ''down'')),
      Respond 500 (Send (DatastoreError ''down''))]"
  using
    index_responds [of scripted "[Inr (JArr [])]" "[]" "[]"]
    index_responds [of scripted "[Inl (DatastoreError ''down'')]" _ "[]"
      "DatastoreError ''down''"]
  by (simp add: scripted_def)

text \<open>
  Whichever request is served, a rejected datastore operation in its trace means that
  the responses of the request are exactly one: status 500 with that error.
\<close>

lemma rejected_call_answered_500:
  "Call operation (Inl err) \<in> set (events (route ds jp rq (start d))) \<Longrightarrow>
   responses (events (route ds jp rq (start d))) = [(500, Send err)]"
proof (cases rq)
  case GET_index
  assume "Call operation (Inl err) \<in> set (events (route ds jp rq (start d)))"
  with GET_index show ?thesis
    by (auto simp: index_def chain_defs split: prod.splits sum.splits if_splits)
next
  case (POST_create body)
  assume "Call operation (Inl err) \<in> set (events (route ds jp rq (start d)))"
  with POST_create show ?thesis
    by (auto simp: create_def chain_defs split: prod.splits sum.splits if_splits)
next
  case (GET_show pid)
  assume "Call operation (Inl err) \<in> set (events (route ds jp rq (start d)))"
  with GET_show show ?thesis
    by (auto simp: show_def chain_defs split: prod.splits sum.splits if_splits)
next
  case (PUT_upsert pid body)
  assume "Call operation (Inl err) \<in> set (events (route ds jp rq (start d)))"
  with PUT_upsert show ?thesis
    by (auto simp: upsert_def chain_defs split: prod.splits sum.splits if_splits)
next
  case (PATCH_patch pid body)
  assume a: "Call operation (Inl err) \<in> set (events (route ds jp rq (start d)))"
  show ?thesis
  proof (cases "get_id body")
    case (Inl e)
    with a PATCH_patch show ?thesis by (simp add: patch_def start_def)
  next
    case (Inr i)
    define doc where "doc = (if truthy i then delete_id body else body)"
    have doc: "(if truthy i then delete_id body else body) = doc" by (simp add: doc_def)
    obtain r d' where f: "ds_find ds pid d = (r, d')" by (cases "ds_find ds pid d")
    show ?thesis
    proof (cases r)
      case (Inl e)
      with a f Inr PATCH_patch show ?thesis
        by (auto simp: patch_def chain_defs)
    next
      case r: (Inr entity)
      define passed where "passed = (if truthy entity then entity else JNull)"
      show ?thesis
      proof (cases "jp passed doc")
        case (Inl e)
        with a f r Inr PATCH_patch doc show ?thesis
          by (auto simp: patch_def chain_defs passed_def split: if_splits)
      next
        case after: (Inr after)
        define e' where "e' = mutated passed after"
        have e': "mutated passed after = e'" by (simp add: e'_def)
        obtain s d'' where s: "ds_save ds e' d' = (s, d'')" by (cases "ds_save ds e' d'")
        show ?thesis
        proof (cases "truthy entity")
          case False
          then have "passed = JNull" and "e' = JNull"
            by (simp_all add: passed_def e'_def mutated_def)
          with a f r Inr PATCH_patch doc after False show ?thesis
            by (auto simp: patch_def chain_defs entity_save_def mutated_def)
        next
          case True
          then have "passed = entity" by (simp add: passed_def)
          with a f r Inr PATCH_patch doc after e' s True show ?thesis
            by (cases e'; cases s)
               (auto simp: patch_def chain_defs entity_save_def split: if_splits)
        qed
      qed
    qed
  qed
next
  case (DELETE_destroy pid)
  assume a: "Call operation (Inl err) \<in> set (events (route ds jp rq (start d)))"
  obtain r d' where f: "ds_find ds pid d = (r, d')" by (cases "ds_find ds pid d")
  show ?thesis
  proof (cases r)
    case (Inl e)
    with a f DELETE_destroy show ?thesis
      by (auto simp: destroy_def chain_defs)
  next
    case r: (Inr entity)
    obtain s d'' where s: "ds_destroy ds entity d' = (s, d'')"
      by (cases "ds_destroy ds entity d'")
    from a f r DELETE_destroy s show ?thesis
      by (cases entity; cases s)
         (auto simp: destroy_def chain_defs entity_destroy_def split: if_splits)
  qed
qed

text \<open>
  C9: for every operation and every datastore call it makes, when the datastore rejects
  the call with an error, the handler has made the calls up to that one and answers
  once, with status 500 and that error as the body. The calls are findAll for index,
  create for create, find for show, upsert for upsert, find and then save for patch,
  find and then destroy for destroy.
\<close>

theorem datastore_rejection_responds_500:
  "(ds_findAll ds d = (Inl err, d') \<longrightarrow>
      events (route ds jp GET_index (start d)) =
        [Call FindAll (Inl err), Respond 500 (Send err)]) \<and>
   (ds_create ds body d = (Inl err, d') \<longrightarrow>
      events (route ds jp (POST_create body) (start d)) =
        [Call (Create body) (Inl err), Respond 500 (Send err)]) \<and>
   (ds_find ds pid d = (Inl err, d') \<longrightarrow>
      events (route ds jp (GET_show pid) (start d)) =
        [Call (Find pid) (Inl err), Respond 500 (Send err)]) \<and>
   (get_id body = Inr i \<and>
    ds_upsert ds (if truthy i then delete_id body else body) pid d = (Inl err, d') \<longrightarrow>
      events (route ds jp (PUT_upsert pid body) (start d)) =
        [Call (Upsert (if truthy i then delete_id body else body) pid) (Inl err),
         Respond 500 (Send err)]) \<and>
   (get_id body = Inr i \<and> ds_find ds pid d = (Inl err, d') \<longrightarrow>
      events (route ds jp (PATCH_patch pid body) (start d)) =
        [Call (Find pid) (Inl err), Respond 500 (Send err)]) \<and>
   (get_id body = Inr i \<and> ds_find ds pid d = (Inr (JObj kvs), d') \<and>
    jp (JObj kvs) (if truthy i then delete_id body else body) = Inr after \<and>
    ds_save ds (mutated (JObj kvs) after) d' = (Inl err, d'') \<longrightarrow>
      events (route ds jp (PATCH_patch pid body) (start d)) =
        [Call (Find pid) (Inr (JObj kvs)),
         Apply (JObj kvs) (if truthy i then delete_id body else body)
           (Inr (mutated (JObj kvs) after)),
         Call (Save (mutated (JObj kvs) after)) (Inl err),
         Respond 500 (Send err)]) \<and>
   (ds_find ds pid d = (Inl err, d') \<longrightarrow>
      events (route ds jp (DELETE_destroy pid) (start d)) =
        [Call (Find pid) (Inl err), Respond 500 (Send err)]) \<and>
   (ds_find ds pid d = (Inr (JObj kvs), d') \<and>
    ds_destroy ds (JObj kvs) d' = (Inl err, d'') \<longrightarrow>
      events (route ds jp (DELETE_destroy pid) (start d)) =
        [Call (Find pid) (Inr (JObj kvs)), Call (Destroy (JObj kvs)) (Inl err),
         Respond 500 (Send err)])"
proof -
  have save: "\<exists>kvs'. mutated (JObj kvs) after = JObj kvs'"
    by (cases after) (simp_all add: mutated_def)
  have p: "get_id body = Inr i \<Longrightarrow> ds_find ds pid d = (Inr (JObj kvs), d') \<Longrightarrow>
    jp (JObj kvs) (if truthy i then delete_id body else body) = Inr after \<Longrightarrow>
    ds_save ds (mutated (JObj kvs) after) d' = (Inl err, d'') \<Longrightarrow>
      events (route ds jp (PATCH_patch pid body) (start d)) =
        [Call (Find pid) (Inr (JObj kvs)),
         Apply (JObj kvs) (if truthy i then delete_id body else body)
           (Inr (mutated (JObj kvs) after)),
         Call (Save (mutated (JObj kvs) after)) (Inl err),
         Respond 500 (Send err)]"
  proof -
    assume h: "get_id body = Inr i" "ds_find ds pid d = (Inr (JObj kvs), d')"
      "jp (JObj kvs) (if truthy i then delete_id body else body) = Inr after"
      "ds_save ds (mutated (JObj kvs) after) d' = (Inl err, d'')"
    from save obtain kvs' where m: "mutated (JObj kvs) after = JObj kvs'" by blast
    with h show ?thesis by (simp add: patch_def chain_defs entity_save_def)
  qed
  have rest:
    "(ds_findAll ds d = (Inl err, d') \<longrightarrow>
        events (route ds jp GET_index (start d)) =
          [Call FindAll (Inl err), Respond 500 (Send err)])"
    "(ds_create ds body d = (Inl err, d') \<longrightarrow>
        events (route ds jp (POST_create body) (start d)) =
          [Call (Create body) (Inl err), Respond 500 (Send err)])"
    "(ds_find ds pid d = (Inl err, d') \<longrightarrow>
        events (route ds jp (GET_show pid) (start d)) =
          [Call (Find pid) (Inl err), Respond 500 (Send err)])"
    "(get_id body = Inr i \<and>
      ds_upsert ds (if truthy i then delete_id body else body) pid d = (Inl err, d') \<longrightarrow>
        events (route ds jp (PUT_upsert pid body) (start d)) =
          [Call (Upsert (if truthy i then delete_id body else body) pid) (Inl err),
           Respond 500 (Send err)])"
    "(get_id body = Inr i \<and> ds_find ds pid d = (Inl err, d') \<longrightarrow>
        events (route ds jp (PATCH_patch pid body) (start d)) =
          [Call (Find pid) (Inl err), Respond 500 (Send err)])"
    "(ds_find ds pid d = (Inl err, d') \<longrightarrow>
        events (route ds jp (DELETE_destroy pid) (start d)) =
          [Call (Find pid) (Inl err), Respond 500 (Send err)])"
    "(ds_find ds pid d = (Inr (JObj kvs), d') \<and>
      ds_destroy ds (JObj kvs) d' = (Inl err, d'') \<longrightarrow>
        events (route ds jp (DELETE_destroy pid) (start d)) =
          [Call (Find pid) (Inr (JObj kvs)), Call (Destroy (JObj kvs)) (Inl err),
           Respond 500 (Send err)])"
    by (simp_all add: index_def create_def show_def upsert_def patch_def destroy_def
        chain_defs entity_destroy_def)
  from p rest show ?thesis by blast
qed

text \<open>
  C9, witness: with the datastore down, each of the six requests; and with the
  datastore going down after the fetch, PATCH (the save is rejected) and DELETE (the
  deletion is rejected).
\<close>

theorem datastore_rejection_responds_500_witness:
  "events (route scripted jsonpatch_flat GET_index (start [Inl (DatastoreError ''down'')])) =
     [Call FindAll (Inl (DatastoreError ''down'')),
      Respond 500 (Send (DatastoreError ''down''))] \<and>
   events (route scripted jsonpatch_flat (POST_create sample_body)
       (start [Inl (DatastoreError ''down'')])) =
     [Call (Create sample_body) (Inl (DatastoreError ''down'')),
      Respond 500 (Send (DatastoreError ''down''))] \<and>
   events (route scripted jsonpatch_flat (GET_show ''1'')
       (start [Inl (DatastoreError ''down'')])) =
     [Call (Find ''1'') (Inl (DatastoreError ''down'')),
      Respond 500 (Send (DatastoreError ''down''))] \<and>
   events (route scripted jsonpatch_flat (PUT_upsert ''1'' sample_body)
       (start [Inl (DatastoreError ''down'')])) =
     [Call (Upsert sample_body ''1'') (Inl (DatastoreError ''down'')),
      Respond 500 (Send (DatastoreError ''down''))] \<and>
   events (route scripted jsonpatch_flat (PATCH_patch ''1'' sample_patch)
       (start [Inl (DatastoreError ''down'')])) =
     [Call (Find ''1'') (Inl (DatastoreError ''down'')),
      Respond 500 (Send (DatastoreError ''down''))] \<and>
   events (route scripted jsonpatch_flat (DELETE_destroy ''1'')
       (start [Inl (DatastoreError ''down'')])) =
     [Call (Find ''1'') (Inl (DatastoreError ''down'')),
      Respond 500 (Send (DatastoreError ''down''))] \<and>
   events (route scripted jsonpatch_flat (PATCH_patch ''1'' sample_patch)
       (start [Inr sample_record, Inl (DatastoreError ''down'')])) =
     [Call (Find ''1'') (Inr sample_record),
      Apply sample_record sample_patch (Inr sample_patched),
      Call (Save sample_patched) (Inl (DatastoreError ''down'')),
      Respond 500 (Send (DatastoreError ''down''))] \<and>
   events (route scripted jsonpatch_flat (DELETE_destroy ''1'')
       (start [Inr sample_record, Inl (DatastoreError ''down'')])) =
     [Call (Find ''1'') (Inr sample_record),
      Call (Destroy sample_record) (Inl (DatastoreError ''down'')),
      Respond 500 (Send (DatastoreError ''down''))]"
  using
    datastore_rejection_responds_500 [where ds = scripted and jp = jsonpatch_flat
      and d = "[Inl (DatastoreError ''down'')]" and d' = "[]"
      and err = "DatastoreError ''down''" and body = sample_patch and pid = "''1''"
      and i = JUndefined]
    datastore_rejection_responds_500 [where ds = scripted and jp = jsonpatch_flat
      and d = "[Inl (DatastoreError ''down'')]" and d' = "[]"
      and err = "DatastoreError ''down''" and body = sample_body and pid = "''1''"
      and i = JUndefined]
    datastore_rejection_responds_500 [where ds = scripted and jp = jsonpatch_flat
      and d = "[Inr sample_record, Inl (DatastoreError ''down'')]"
      and d' = "[Inl (DatastoreError ''down'')]" and d'' = "[]"
      and err = "DatastoreError ''down''" and body = sample_patch and pid = "''1''"
      and i = JUndefined and kvs = "[(''id'', JNum 1), (''name'', JStr ''s1'')]"
      and after = sample_patched]
  by (simp add: scripted_def sample_patch_def sample_record_def sample_patched_def
      sample_body_def
      simple_path_def mutated_def)

text \<open>
  C10: create hands the request body, as it is and whatever it holds (an \<open>id\<close>
  included), to the datastore's create: the one datastore operation of the request is
  the datastore's create applied to that body, the datastore is left as that call
  leaves it, and the answer follows that call's outcome.
\<close>

theorem create_forwards_body:
  "events (snd (create ds body (start d))) =
     Call (Create body) (fst (ds_create ds body d)) #
       (case fst (ds_create ds body d) of
          Inl err \<Rightarrow> [Respond 500 (Send err)]
        | Inr v \<Rightarrow> if truthy v then [Respond 201 (Json v)] else []) \<and>
   store (snd (create ds body (start d))) = snd (ds_create ds body d) \<and>
   ds_ops (events (snd (create ds body (start d)))) = [Create body]"
proof (cases "ds_create ds body d")
  case (Pair r d')
  then show ?thesis
    by (cases r) (simp_all add: create_def chain_defs)
qed

end
